theory Spec2Isabelle
  imports Complex_Main
begin

section \<open>Data model\<close>

text \<open>
  A WebSocket object is identified by a number: the source only ever compares connections
  by identity (\<^verbatim>\<open>connection == exclude\<close>, set membership, dictionary keys).
\<close>

type_synonym ws = nat

text \<open>
  The values that \<^verbatim>\<open>json.loads\<close> produces and \<^verbatim>\<open>json.dumps\<close> consumes. A Python
  dictionary is the list of its items; \<^verbatim>\<open>dict.get\<close> is the lookup with a default.
\<close>

datatype json =
    JNull
  | JBool bool
  | JInt int
  | JFloat real
  | JStr string
  | JArr "json list"
  | JObj "(string \<times> json) list"

definition dict_get :: "(string \<times> json) list \<Rightarrow> string \<Rightarrow> json \<Rightarrow> json" where
  "dict_get kvs k d = (case map_of kvs k of None \<Rightarrow> d | Some v \<Rightarrow> v)"

text \<open>
  The exceptions the handler tells apart: \<^verbatim>\<open>WebSocketDisconnect\<close> has a clause of its
  own, everything else falls into \<^verbatim>\<open>except Exception\<close>.
\<close>

datatype exn = WebSocketDisconnect | JSONDecodeError | AttributeError | RuntimeError

text \<open>
  The document of one space in the \<^verbatim>\<open>spaces\<close> collection (database.py). The two
  timestamps \<^verbatim>\<open>created_at\<close> and \<^verbatim>\<open>last_updated\<close> are never read on the WebSocket
  path and are left out.
\<close>

record space_document =
  code :: json
  language :: json
  active_users :: "string list"

text \<open>
  What the outside can observe, in the order it happens: frames handed to a connection,
  the handshake and the close of a connection, and the calls made to the durable store.
\<close>

datatype event =
    Accepted ws
  | Closed ws nat string
  | Sent ws json
  | DbGetSpace string
  | DbUpdateCode string json
  | DbUpdateLanguage string json
  | DbAddUser string string
  | DbRemoveUser string string

text \<open>
  \<^verbatim>\<open>ConnectionManager\<close>: three dictionaries. A Python set of connections is a list
  without repetitions; its order stands for the (arbitrary) iteration order of the set.
\<close>

record manager =
  active_connections :: "string \<rightharpoonup> ws list"
  user_ids :: "ws \<rightharpoonup> string"
  last_db_write :: "string \<rightharpoonup> real"

text \<open>
  The whole state: the manager, the \<^verbatim>\<open>spaces\<close> collection, the transport (for each
  connection the exception that a send on it raises, if any) and the events so far.
  The durable store is an in-memory table whose operations always return.
\<close>

record world =
  mgr :: manager
  spaces :: "string \<rightharpoonup> space_document"
  broken :: "ws \<Rightarrow> exn option"
  trace :: "event list"

definition emit :: "event \<Rightarrow> world \<Rightarrow> world" where
  "emit e w = w\<lparr>trace := trace w @ [e]\<rparr>"

section \<open>database.py\<close>

definition get_space :: "string \<Rightarrow> world \<Rightarrow> space_document option \<times> world" where
  "get_space space_id w = (spaces w space_id, emit (DbGetSpace space_id) w)"

definition update_space_code :: "string \<Rightarrow> json \<Rightarrow> world \<Rightarrow> bool \<times> world" where
  "update_space_code space_id c w =
     (let w1 = emit (DbUpdateCode space_id c) w in
      case spaces w space_id of
        None \<Rightarrow> (False, w1)
      | Some doc \<Rightarrow> (True, w1\<lparr>spaces := (spaces w1)(space_id \<mapsto> doc\<lparr>code := c\<rparr>)\<rparr>))"

definition update_space_language :: "string \<Rightarrow> json \<Rightarrow> world \<Rightarrow> bool \<times> world" where
  "update_space_language space_id l w =
     (let w1 = emit (DbUpdateLanguage space_id l) w in
      case spaces w space_id of
        None \<Rightarrow> (False, w1)
      | Some doc \<Rightarrow> (True, w1\<lparr>spaces := (spaces w1)(space_id \<mapsto> doc\<lparr>language := l\<rparr>)\<rparr>))"

definition add_user_to_space :: "string \<Rightarrow> string \<Rightarrow> world \<Rightarrow> world" where
  "add_user_to_space space_id user_id w =
     (let w1 = emit (DbAddUser space_id user_id) w in
      case spaces w space_id of
        None \<Rightarrow> w1
      | Some doc \<Rightarrow>
          w1\<lparr>spaces := (spaces w1)(space_id \<mapsto>
                doc\<lparr>active_users :=
                  (if user_id \<in> set (active_users doc) then active_users doc
                   else active_users doc @ [user_id])\<rparr>)\<rparr>)"

definition remove_user_from_space :: "string \<Rightarrow> string \<Rightarrow> world \<Rightarrow> world" where
  "remove_user_from_space space_id user_id w =
     (let w1 = emit (DbRemoveUser space_id user_id) w in
      case spaces w space_id of
        None \<Rightarrow> w1
      | Some doc \<Rightarrow>
          w1\<lparr>spaces := (spaces w1)(space_id \<mapsto>
                doc\<lparr>active_users := removeAll user_id (active_users doc)\<rparr>)\<rparr>)"

section \<open>main.py: ConnectionManager\<close>

definition connect :: "ws \<Rightarrow> string \<Rightarrow> string \<Rightarrow> world \<Rightarrow> world" where
  "connect websocket space_id user_id w =
     (let w1 = emit (Accepted websocket) w;
          conns = (case active_connections (mgr w1) space_id of None \<Rightarrow> [] | Some cs \<Rightarrow> cs);
          conns' = (if websocket \<in> set conns then conns else conns @ [websocket]);
          w2 = w1\<lparr>mgr := (mgr w1)\<lparr>active_connections :=
                        (active_connections (mgr w1))(space_id \<mapsto> conns')\<rparr>\<rparr>;
          w3 = w2\<lparr>mgr := (mgr w2)\<lparr>user_ids := (user_ids (mgr w2))(websocket \<mapsto> user_id)\<rparr>\<rparr>
      in add_user_to_space space_id user_id w3)"

definition disconnect :: "ws \<Rightarrow> string \<Rightarrow> world \<Rightarrow> world" where
  "disconnect websocket space_id w =
     (let w1 = (case active_connections (mgr w) space_id of
                  None \<Rightarrow> w
                | Some cs \<Rightarrow>
                    (let cs' = removeAll websocket cs in
                     w\<lparr>mgr := (mgr w)\<lparr>active_connections :=
                          (if cs' = [] then (active_connections (mgr w))(space_id := None)
                           else (active_connections (mgr w))(space_id \<mapsto> cs'))\<rparr>\<rparr>));
          user_id = user_ids (mgr w1) websocket;
          w2 = w1\<lparr>mgr := (mgr w1)\<lparr>user_ids := (user_ids (mgr w1))(websocket := None)\<rparr>\<rparr>
      in case user_id of
           None \<Rightarrow> w2
         | Some u \<Rightarrow> (if u \<noteq> [] then remove_user_from_space space_id u w2 else w2))"

text \<open>
  \<^verbatim>\<open>send_text\<close> on a connection: it raises what the transport says, or hands the frame
  over. The frame is kept as the dictionary that \<^verbatim>\<open>json.dumps\<close> serialises.
\<close>

definition send_text :: "ws \<Rightarrow> json \<Rightarrow> world \<Rightarrow> exn option \<times> world" where
  "send_text connection message w =
     (case broken w connection of
        Some e \<Rightarrow> (Some e, w)
      | None \<Rightarrow> (None, emit (Sent connection message) w))"

text \<open>
  The first loop of \<^verbatim>\<open>broadcast\<close>: the members in iteration order, the dead connections
  collected so far. The \<^verbatim>\<open>try\<close>/\<^verbatim>\<open>except Exception\<close> around the send is the case
  distinction on its outcome.
\<close>

fun broadcast_sends :: "json \<Rightarrow> ws option \<Rightarrow> ws list \<Rightarrow> ws list \<Rightarrow> world \<Rightarrow> ws list \<times> world" where
  "broadcast_sends message exclude [] dead w = (dead, w)"
| "broadcast_sends message exclude (connection # rest) dead w =
     (if Some connection = exclude then broadcast_sends message exclude rest dead w
      else
        (case send_text connection message w of
           (None, w') \<Rightarrow> broadcast_sends message exclude rest dead w'
         | (Some e, w') \<Rightarrow>
             broadcast_sends message exclude rest
               (if connection \<in> set dead then dead else dead @ [connection]) w'))"

text \<open>The second loop: \<^verbatim>\<open>disconnect\<close> for every dead connection.\<close>

fun broadcast_cleanup :: "ws list \<Rightarrow> string \<Rightarrow> world \<Rightarrow> world" where
  "broadcast_cleanup [] space_id w = w"
| "broadcast_cleanup (dead_conn # rest) space_id w =
     broadcast_cleanup rest space_id (disconnect dead_conn space_id w)"

definition broadcast :: "string \<Rightarrow> json \<Rightarrow> ws option \<Rightarrow> world \<Rightarrow> exn option \<times> world" where
  "broadcast space_id message exclude w =
     (case active_connections (mgr w) space_id of
        None \<Rightarrow> (None, w)
      | Some conns \<Rightarrow>
          (case broadcast_sends message exclude conns [] w of
             (dead_connections, w1) \<Rightarrow> (None, broadcast_cleanup dead_connections space_id w1)))"

definition get_active_users :: "string \<Rightarrow> world \<Rightarrow> nat" where
  "get_active_users space_id w =
     (case active_connections (mgr w) space_id of None \<Rightarrow> 0 | Some cs \<Rightarrow> length cs)"

section \<open>main.py: the WebSocket endpoint\<close>

definition init_message :: "string \<Rightarrow> string \<Rightarrow> space_document \<Rightarrow> nat \<Rightarrow> json" where
  "init_message space_id user_id space n =
     JObj [(''type'', JStr ''init''), (''space_id'', JStr space_id), (''user_id'', JStr user_id),
           (''code'', code space), (''language'', language space),
           (''active_users'', JInt (int n))]"

definition user_join_message :: "string \<Rightarrow> nat \<Rightarrow> json" where
  "user_join_message user_id n =
     JObj [(''type'', JStr ''user_join''), (''user_id'', JStr user_id),
           (''active_users'', JInt (int n))]"

definition user_leave_message :: "string \<Rightarrow> nat \<Rightarrow> json" where
  "user_leave_message user_id n =
     JObj [(''type'', JStr ''user_leave''), (''user_id'', JStr user_id),
           (''active_users'', JInt (int n))]"

definition code_change_message :: "json \<Rightarrow> string \<Rightarrow> json" where
  "code_change_message new_code user_id =
     JObj [(''type'', JStr ''code_change''), (''code'', new_code), (''user_id'', JStr user_id)]"

definition language_change_message :: "json \<Rightarrow> string \<Rightarrow> json" where
  "language_change_message new_language user_id =
     JObj [(''type'', JStr ''language_change''), (''language'', new_language),
           (''user_id'', JStr user_id)]"

definition cursor_move_message :: "string \<Rightarrow> json \<Rightarrow> json" where
  "cursor_move_message user_id cursor_position =
     JObj [(''type'', JStr ''cursor_move''), (''user_id'', JStr user_id),
           (''cursor_position'', cursor_position)]"

text \<open>
  The body of the \<^verbatim>\<open>while True\<close> loop after \<^verbatim>\<open>json.loads\<close>: \<open>message\<close> is the decoded
  value and \<open>now\<close> is what \<^verbatim>\<open>time.time()\<close> returns in the \<^verbatim>\<open>code_change\<close> branch
  (seconds, taken as an exact number). A decoded value that is not a dictionary has no
  \<^verbatim>\<open>get\<close>: the attribute lookup raises.
\<close>

definition handle_message :: "ws \<Rightarrow> string \<Rightarrow> string \<Rightarrow> real \<Rightarrow> json \<Rightarrow> world \<Rightarrow> exn option \<times> world" where
  "handle_message websocket space_id user_id now message w =
     (case message of
        JObj kvs \<Rightarrow>
          (let message_type = dict_get kvs ''type'' JNull in
           if message_type = JStr ''code_change'' then
             (let new_code = dict_get kvs ''code'' (JStr '''');
                  last = (case last_db_write (mgr w) space_id of None \<Rightarrow> 0 | Some t \<Rightarrow> t);
                  w1 = (if now - last \<ge> 1 / 2 then
                          (let w' = snd (update_space_code space_id new_code w) in
                           w'\<lparr>mgr := (mgr w')\<lparr>last_db_write :=
                                 (last_db_write (mgr w'))(space_id \<mapsto> now)\<rparr>\<rparr>)
                        else w)
              in broadcast space_id (code_change_message new_code user_id) (Some websocket) w1)
           else if message_type = JStr ''language_change'' then
             (let new_language = dict_get kvs ''language'' (JStr ''python'');
                  w1 = snd (update_space_language space_id new_language w)
              in broadcast space_id (language_change_message new_language user_id)
                   (Some websocket) w1)
           else if message_type = JStr ''cursor_move'' then
             broadcast space_id
               (cursor_move_message user_id (dict_get kvs ''cursor_position'' (JObj [])))
               (Some websocket) w
           else (None, w))
      | _ \<Rightarrow> (Some AttributeError, w))"

text \<open>
  The two \<^verbatim>\<open>except\<close> clauses of the endpoint, for an exception raised inside the
  \<^verbatim>\<open>try\<close> block.
\<close>

definition on_exception :: "exn \<Rightarrow> ws \<Rightarrow> string \<Rightarrow> string \<Rightarrow> world \<Rightarrow> exn option \<times> world" where
  "on_exception e websocket space_id user_id w =
     (case e of
        WebSocketDisconnect \<Rightarrow>
          (let w1 = disconnect websocket space_id w in
           broadcast space_id (user_leave_message user_id (get_active_users space_id w1)) None w1)
      | _ \<Rightarrow> (None, disconnect websocket space_id w))"

text \<open>
  The endpoint up to the first \<^verbatim>\<open>receive_text\<close>. \<open>user_id\<close> is the token that
  \<^verbatim>\<open>str(uuid.uuid4())[:8]\<close> yields. The result says whether the handler is now in its
  receive loop.
\<close>

definition websocket_endpoint_open :: "ws \<Rightarrow> string \<Rightarrow> string \<Rightarrow> world \<Rightarrow> bool \<times> world" where
  "websocket_endpoint_open websocket space_id user_id w =
     (case get_space space_id w of
        (None, w1) \<Rightarrow> (False, emit (Closed websocket 4004 ''Space not found'') w1)
      | (Some space, w1) \<Rightarrow>
          (let w2 = connect websocket space_id user_id w1 in
           case send_text websocket
                  (init_message space_id user_id space (get_active_users space_id w2)) w2 of
             (Some e, w3) \<Rightarrow> (False, snd (on_exception e websocket space_id user_id w3))
           | (None, w3) \<Rightarrow>
               (case broadcast space_id
                       (user_join_message user_id (get_active_users space_id w3))
                       (Some websocket) w3 of
                  (Some e, w4) \<Rightarrow> (False, snd (on_exception e websocket space_id user_id w4))
                | (None, w4) \<Rightarrow> (True, w4))))"

text \<open>
  What one turn of the loop gets from the transport: \<^verbatim>\<open>receive_text\<close> raises, or it
  returns a text that \<^verbatim>\<open>json.loads\<close> rejects, or a text that decodes to a value.
\<close>

datatype inbound = Receive_Raises exn | Undecodable_Text | Json_Text json

definition websocket_endpoint_recv ::
  "ws \<Rightarrow> string \<Rightarrow> string \<Rightarrow> real \<Rightarrow> inbound \<Rightarrow> world \<Rightarrow> bool \<times> world" where
  "websocket_endpoint_recv websocket space_id user_id now inp w =
     (case (case inp of
              Receive_Raises e \<Rightarrow> (Some e, w)
            | Undecodable_Text \<Rightarrow> (Some JSONDecodeError, w)
            | Json_Text message \<Rightarrow> handle_message websocket space_id user_id now message w) of
        (None, w1) \<Rightarrow> (True, w1)
      | (Some e, w1) \<Rightarrow> (False, snd (on_exception e websocket space_id user_id w1)))"

text \<open>
  The receive loop on a finite sequence of inputs, each with the clock reading of its
  turn. The loop ends at the first exception; when the inputs are used up the handler is
  still waiting in \<^verbatim>\<open>receive_text\<close>.
\<close>

fun websocket_endpoint_loop ::
  "ws \<Rightarrow> string \<Rightarrow> string \<Rightarrow> (real \<times> inbound) list \<Rightarrow> world \<Rightarrow> bool \<times> world" where
  "websocket_endpoint_loop websocket space_id user_id [] w = (True, w)"
| "websocket_endpoint_loop websocket space_id user_id ((now, inp) # rest) w =
     (case websocket_endpoint_recv websocket space_id user_id now inp w of
        (True, w') \<Rightarrow> websocket_endpoint_loop websocket space_id user_id rest w'
      | (False, w') \<Rightarrow> (False, w'))"

definition websocket_endpoint ::
  "ws \<Rightarrow> string \<Rightarrow> string \<Rightarrow> (real \<times> inbound) list \<Rightarrow> world \<Rightarrow> bool \<times> world" where
  "websocket_endpoint websocket space_id user_id inputs w =
     (case websocket_endpoint_open websocket space_id user_id w of
        (True, w1) \<Rightarrow> websocket_endpoint_loop websocket space_id user_id inputs w1
      | (False, w1) \<Rightarrow> (False, w1))"

section \<open>Observations on a trace\<close>

text \<open>The frames handed to one connection, the code writes and the user removals.\<close>

fun received :: "ws \<Rightarrow> event list \<Rightarrow> json list" where
  "received c [] = []"
| "received c (Sent c' m # es) = (if c' = c then m # received c es else received c es)"
| "received c (_ # es) = received c es"

fun code_writes :: "string \<Rightarrow> event list \<Rightarrow> json list" where
  "code_writes s [] = []"
| "code_writes s (DbUpdateCode s' c # es) =
     (if s' = s then c # code_writes s es else code_writes s es)"
| "code_writes s (_ # es) = code_writes s es"

fun is_db_call :: "event \<Rightarrow> bool" where
  "is_db_call (Accepted _) = False"
| "is_db_call (Closed _ _ _) = False"
| "is_db_call (Sent _ _) = False"
| "is_db_call _ = True"

definition members :: "string \<Rightarrow> world \<Rightarrow> ws list" where
  "members space_id w = (case active_connections (mgr w) space_id of None \<Rightarrow> [] | Some cs \<Rightarrow> cs)"

definition initial_manager :: manager where
  "initial_manager = \<lparr>active_connections = Map.empty, user_ids = Map.empty,
                       last_db_write = Map.empty\<rparr>"

section \<open>Notions used in the statements\<close>

text \<open>
  For one call of \<^verbatim>\<open>broadcast\<close>: the members that the first loop sends to and whose
  send returns, and the members whose send raises.
\<close>

definition reachable_members :: "ws option \<Rightarrow> world \<Rightarrow> ws list \<Rightarrow> ws list" where
  "reachable_members exclude w cs = filter (\<lambda>c. Some c \<noteq> exclude \<and> broken w c = None) cs"

definition failed_members :: "ws option \<Rightarrow> world \<Rightarrow> ws list \<Rightarrow> ws list" where
  "failed_members exclude w cs = filter (\<lambda>c. Some c \<noteq> exclude \<and> broken w c \<noteq> None) cs"

text \<open>What one call of \<^verbatim>\<open>disconnect\<close> adds to the trace.\<close>

definition removal_events :: "ws \<Rightarrow> string \<Rightarrow> world \<Rightarrow> event list" where
  "removal_events c s w =
     (case user_ids (mgr w) c of
        None \<Rightarrow> []
      | Some u \<Rightarrow> if u \<noteq> [] then [DbRemoveUser s u] else [])"

text \<open>
  The states the server can be in: it starts with an empty manager; the store and the
  transport change from outside (the REST endpoints, the network); a connection is
  opened; a handler takes one turn of its receive loop.
\<close>

inductive reachable :: "world \<Rightarrow> bool" where
  start: "reachable \<lparr>mgr = initial_manager, spaces = db, broken = br, trace = []\<rparr>"
| outside: "reachable w \<Longrightarrow> reachable (w\<lparr>spaces := db, broken := br\<rparr>)"
| opened: "reachable w \<Longrightarrow> reachable (snd (websocket_endpoint_open c s u w))"
| turn: "reachable w \<Longrightarrow> reachable (snd (websocket_endpoint_recv c s u now inp w))"

text \<open>Every member set in the manager is a set (no repetition) and is not empty.\<close>

definition wf_manager :: "world \<Rightarrow> bool" where
  "wf_manager w =
     (\<forall>s cs. active_connections (mgr w) s = Some cs \<longrightarrow> cs \<noteq> [] \<and> distinct cs)"

text \<open>
  The scenario of the specification: the space \<open>ab12cd34\<close> with language \<open>python\<close> and
  empty code, no connection yet, every transport working.
\<close>

definition demo_spaces :: "string \<rightharpoonup> space_document" where
  "demo_spaces =
     [''ab12cd34'' \<mapsto> \<lparr>code = JStr '''', language = JStr ''python'', active_users = []\<rparr>]"

definition demo_start :: world where
  "demo_start =
     \<lparr>mgr = initial_manager, spaces = demo_spaces, broken = (\<lambda>c. None), trace = []\<rparr>"

text \<open>The same scenario after \<open>P1\<close> (connection 1) and \<open>P2\<close> (connection 2) have joined.\<close>

definition demo_two :: world where
  "demo_two =
     snd (websocket_endpoint_open 2 ''ab12cd34'' ''p2''
       (snd (websocket_endpoint_open 1 ''ab12cd34'' ''p1'' demo_start)))"

text \<open>
  Two names for parts of the \<^verbatim>\<open>code_change\<close> branch of the loop body: the time of the
  last write as the branch reads it (\<^verbatim>\<open>last_db_write.get(space_id, 0)\<close>), and the
  throttled write with its bookkeeping.
\<close>

definition last_write :: "string \<Rightarrow> world \<Rightarrow> real" where
  "last_write space_id w = (case last_db_write (mgr w) space_id of None \<Rightarrow> 0 | Some t \<Rightarrow> t)"

definition persist :: "string \<Rightarrow> json \<Rightarrow> real \<Rightarrow> world \<Rightarrow> world" where
  "persist space_id new_code now w =
     (if now - last_write space_id w \<ge> 1 / 2 then
        (let w' = snd (update_space_code space_id new_code w) in
         w'\<lparr>mgr := (mgr w')\<lparr>last_db_write := (last_db_write (mgr w'))(space_id \<mapsto> now)\<rparr>\<rparr>)
      else w)"


text \<open>The scenario after \<open>P1\<close> has sent \<^verbatim>\<open>code_change\<close> with code \<open>x=1\<close> at time 1000.\<close>

definition demo_typing :: world where
  "demo_typing =
     snd (websocket_endpoint_recv 1 ''ab12cd34'' ''p1'' 1000
            (Json_Text (JObj [(''type'', JStr ''code_change''), (''code'', JStr ''x=1'')]))
            demo_two)"






text \<open>
  The frame that the loop body builds for a message of one of the three forwarded types,
  and nothing for any other type.
\<close>

definition forwarded :: "string \<Rightarrow> (string \<times> json) list \<Rightarrow> json option" where
  "forwarded user_id kvs =
     (let message_type = dict_get kvs ''type'' JNull in
      if message_type = JStr ''code_change'' then
        Some (code_change_message (dict_get kvs ''code'' (JStr '''')) user_id)
      else if message_type = JStr ''language_change'' then
        Some (language_change_message (dict_get kvs ''language'' (JStr ''python'')) user_id)
      else if message_type = JStr ''cursor_move'' then
        Some (cursor_move_message user_id (dict_get kvs ''cursor_position'' (JObj [])))
      else None)"


text \<open>The scenario after \<open>P1\<close> alone has joined, and the document of the space at the start.\<close>

definition demo_one :: world where
  "demo_one = snd (websocket_endpoint_open 1 ''ab12cd34'' ''p1'' demo_start)"

definition demo_space :: space_document where
  "demo_space = \<lparr>code = JStr '''', language = JStr ''python'', active_users = []\<rparr>"


text \<open>
  The scenario with a third member \<open>P3\<close> (connection 3), and the same state once the
  transport of \<open>P3\<close> has broken: a send on connection 3 raises.
\<close>

definition demo_three :: world where
  "demo_three = snd (websocket_endpoint_open 3 ''ab12cd34'' ''p3'' demo_two)"

definition demo_three_broken :: world where
  "demo_three_broken = demo_three\<lparr>broken := (\<lambda>c. if c = 3 then Some RuntimeError else None)\<rparr>"


text \<open>The dictionary of one \<^verbatim>\<open>code_change\<close> message.\<close>

definition demo_keystroke :: "(string \<times> json) list" where
  "demo_keystroke = [(''type'', JStr ''code_change''), (''code'', JStr ''x=1'')]"


text \<open>
  A whole life of one connection: \<open>P1\<close> joins the empty space, sends one \<^verbatim>\<open>code_change\<close>
  at time 1000 and disconnects.
\<close>

definition demo_left :: world where
  "demo_left =
     snd (websocket_endpoint 1 ''ab12cd34'' ''p1''
            [(1000, Json_Text (JObj demo_keystroke)), (1001, Receive_Raises WebSocketDisconnect)]
            demo_start)"


section \<open>Basic facts\<close>

lemmas eval_defs = demo_two_def demo_start_def demo_spaces_def initial_manager_def
  websocket_endpoint_open_def websocket_endpoint_recv_def handle_message_def on_exception_def
  broadcast_def connect_def disconnect_def send_text_def get_space_def emit_def
  add_user_to_space_def remove_user_from_space_def update_space_code_def
  update_space_language_def get_active_users_def members_def dict_get_def Let_def
  init_message_def user_join_message_def user_leave_message_def code_change_message_def
  language_change_message_def cursor_move_message_def


lemma emit_simps [simp]:
  "mgr (emit e w) = mgr w" "spaces (emit e w) = spaces w" "broken (emit e w) = broken w"
  "trace (emit e w) = trace w @ [e]"
  by (simp_all add: emit_def)

lemma received_append [simp]: "received c (xs @ ys) = received c xs @ received c ys"
  by (induction c xs rule: received.induct) auto

lemma code_writes_append [simp]: "code_writes s (xs @ ys) = code_writes s xs @ code_writes s ys"
  by (induction s xs rule: code_writes.induct) auto

lemma remove_user_from_space_simps [simp]:
  "mgr (remove_user_from_space s u w) = mgr w"
  "broken (remove_user_from_space s u w) = broken w"
  "trace (remove_user_from_space s u w) = trace w @ [DbRemoveUser s u]"
  by (simp_all add: remove_user_from_space_def Let_def split: option.splits)

lemma add_user_to_space_simps [simp]:
  "mgr (add_user_to_space s u w) = mgr w"
  "broken (add_user_to_space s u w) = broken w"
  "trace (add_user_to_space s u w) = trace w @ [DbAddUser s u]"
  by (simp_all add: add_user_to_space_def Let_def split: option.splits)

lemma update_space_code_simps [simp]:
  "mgr (snd (update_space_code s c w)) = mgr w"
  "broken (snd (update_space_code s c w)) = broken w"
  "trace (snd (update_space_code s c w)) = trace w @ [DbUpdateCode s c]"
  by (simp_all add: update_space_code_def Let_def split: option.splits)

lemma update_space_language_simps [simp]:
  "mgr (snd (update_space_language s c w)) = mgr w"
  "broken (snd (update_space_language s c w)) = broken w"
  "trace (snd (update_space_language s c w)) = trace w @ [DbUpdateLanguage s c]"
  by (simp_all add: update_space_language_def Let_def split: option.splits)

lemma disconnect_broken [simp]: "broken (disconnect c s w) = broken w"
  by (simp add: disconnect_def Let_def split: option.splits)

lemma disconnect_trace: "trace (disconnect c s w) = trace w @ removal_events c s w"
  by (simp add: disconnect_def removal_events_def Let_def split: option.splits)

lemma disconnect_last_db_write [simp]:
  "last_db_write (mgr (disconnect c s w)) = last_db_write (mgr w)"
  by (simp add: disconnect_def Let_def split: option.splits)

lemma disconnect_user_ids [simp]:
  "user_ids (mgr (disconnect c s w)) = (user_ids (mgr w))(c := None)"
  by (simp add: disconnect_def Let_def split: option.splits)

lemma disconnect_active_connections:
  "active_connections (mgr (disconnect c s w)) =
     (case active_connections (mgr w) s of
        None \<Rightarrow> active_connections (mgr w)
      | Some cs \<Rightarrow>
          if removeAll c cs = [] then (active_connections (mgr w))(s := None)
          else (active_connections (mgr w))(s \<mapsto> removeAll c cs))"
  by (simp add: disconnect_def Let_def split: option.splits)

lemma members_disconnect:
  "members s' (disconnect c s w) = (if s' = s then removeAll c (members s w) else members s' w)"
  by (simp add: members_def disconnect_active_connections split: option.splits)


lemma send_text_simps:
  "broken w c = None \<Longrightarrow> send_text c m w = (None, emit (Sent c m) w)"
  "broken w c = Some e \<Longrightarrow> send_text c m w = (Some e, w)"
  by (simp_all add: send_text_def)

lemma broadcast_sends_snd:
  "snd (broadcast_sends m ex cs dead w) =
     w\<lparr>trace := trace w @ map (\<lambda>c. Sent c m) (reachable_members ex w cs)\<rparr>"
proof (induction cs arbitrary: dead w)
  case Nil
  then show ?case by (simp add: reachable_members_def)
next
  case (Cons c cs)
  show ?case
  proof (cases "Some c = ex")
    case True
    then show ?thesis using Cons.IH [of dead w] by (simp add: reachable_members_def)
  next
    case False
    show ?thesis
    proof (cases "broken w c")
      case None
      then show ?thesis using False Cons.IH [of dead "emit (Sent c m) w"]
        by (simp add: reachable_members_def send_text_simps emit_def)
    next
      case (Some e)
      then show ?thesis
        using False Cons.IH [of "if c \<in> set dead then dead else dead @ [c]" w]
        by (simp add: reachable_members_def send_text_simps)
    qed
  qed
qed

lemma broadcast_sends_fst:
  "set (fst (broadcast_sends m ex cs dead w)) = set dead \<union> set (failed_members ex w cs)"
proof (induction cs arbitrary: dead w)
  case Nil
  then show ?case by (simp add: failed_members_def)
next
  case (Cons c cs)
  show ?case
  proof (cases "Some c = ex")
    case True
    then show ?thesis using Cons.IH [of dead w] by (simp add: failed_members_def)
  next
    case False
    show ?thesis
    proof (cases "broken w c")
      case None
      then show ?thesis using False Cons.IH [of dead "emit (Sent c m) w"]
        by (simp add: failed_members_def send_text_simps)
    next
      case (Some e)
      then show ?thesis
        using False Cons.IH [of "if c \<in> set dead then dead else dead @ [c]" w]
        by (auto simp add: failed_members_def send_text_simps)
    qed
  qed
qed

lemma broadcast_cleanup_broken [simp]: "broken (broadcast_cleanup dead s w) = broken w"
  by (induction dead arbitrary: w) simp_all

lemma broadcast_cleanup_last_db_write [simp]:
  "last_db_write (mgr (broadcast_cleanup dead s w)) = last_db_write (mgr w)"
  by (induction dead arbitrary: w) simp_all

lemma broadcast_cleanup_members:
  "members s' (broadcast_cleanup dead s w) =
     (if s' = s then filter (\<lambda>c. c \<notin> set dead) (members s w) else members s' w)"
proof (induction dead arbitrary: w)
  case Nil
  then show ?case by simp
next
  case (Cons d dead)
  show ?case
    using Cons.IH [of "disconnect d s w"]
    by (auto simp add: members_disconnect removeAll_filter_not_eq intro: filter_cong)
qed

lemma broadcast_cleanup_received [simp]:
  "received c (trace (broadcast_cleanup dead s w)) = received c (trace w)"
  by (induction dead arbitrary: w) (simp_all add: disconnect_trace removal_events_def split: option.splits)

lemma broadcast_cleanup_code_writes [simp]:
  "code_writes x (trace (broadcast_cleanup dead s w)) = code_writes x (trace w)"
  by (induction dead arbitrary: w) (simp_all add: disconnect_trace removal_events_def split: option.splits)


lemma broadcast_unfold:
  "broadcast s m ex w =
     (None, case active_connections (mgr w) s of
              None \<Rightarrow> w
            | Some conns \<Rightarrow>
                broadcast_cleanup (fst (broadcast_sends m ex conns [] w)) s
                  (w\<lparr>trace := trace w @ map (\<lambda>c. Sent c m) (reachable_members ex w conns)\<rparr>))"
proof (cases "active_connections (mgr w) s")
  case None
  then show ?thesis by (simp add: broadcast_def)
next
  case (Some conns)
  obtain d w1 where r: "broadcast_sends m ex conns [] w = (d, w1)"
    by (cases "broadcast_sends m ex conns [] w")
  have "w1 = w\<lparr>trace := trace w @ map (\<lambda>c. Sent c m) (reachable_members ex w conns)\<rparr>"
    using broadcast_sends_snd [of m ex conns "[]" w] r by simp
  then show ?thesis using Some r by (simp add: broadcast_def)
qed

lemma broadcast_fst [simp]: "fst (broadcast s m ex w) = None"
  by (simp add: broadcast_unfold)

lemma broadcast_broken [simp]: "broken (snd (broadcast s m ex w)) = broken w"
  by (simp add: broadcast_unfold split: option.splits)

lemma broadcast_last_db_write [simp]:
  "last_db_write (mgr (snd (broadcast s m ex w))) = last_db_write (mgr w)"
  by (simp add: broadcast_unfold split: option.splits)

lemma broadcast_code_writes [simp]:
  "code_writes x (trace (snd (broadcast s m ex w))) = code_writes x (trace w)"
proof -
  have "code_writes x (map (\<lambda>c. Sent c m) cs) = []" for cs
    by (induction cs) simp_all
  then show ?thesis by (simp add: broadcast_unfold split: option.splits)
qed

lemma received_map_Sent:
  "received c (map (\<lambda>c. Sent c m) cs) = replicate (count_list cs c) m"
  by (induction cs) simp_all

lemma broadcast_received:
  "received c (trace (snd (broadcast s m ex w))) =
     received c (trace w) @ replicate (count_list (reachable_members ex w (members s w)) c) m"
  by (simp add: broadcast_unfold members_def received_map_Sent reachable_members_def
           split: option.splits)

lemma members_trace_update [simp]: "members s (w\<lparr>trace := t\<rparr>) = members s w"
  by (simp add: members_def)

lemma broadcast_members:
  "members s' (snd (broadcast s m ex w)) =
     (if s' = s then filter (\<lambda>c. c \<notin> set (failed_members ex w (members s w))) (members s w)
      else members s' w)"
proof (cases "active_connections (mgr w) s")
  case None
  then show ?thesis by (simp add: broadcast_unfold members_def)
next
  case (Some conns)
  then have m: "members s w = conns" by (simp add: members_def)
  show ?thesis
    using Some m broadcast_sends_fst [of m ex conns "[]" w]
    by (simp add: broadcast_unfold broadcast_cleanup_members)
qed


lemma demo_two_eq:
  "demo_two =
     \<lparr>mgr = \<lparr>active_connections = [''ab12cd34'' \<mapsto> [1, 2]],
             user_ids = [1 \<mapsto> ''p1'', 2 \<mapsto> ''p2''],
             last_db_write = Map.empty\<rparr>,
      spaces = [''ab12cd34'' \<mapsto>
                 \<lparr>code = JStr '''', language = JStr ''python'', active_users = [''p1'', ''p2'']\<rparr>],
      broken = (\<lambda>c. None),
      trace = [DbGetSpace ''ab12cd34'', Accepted 1, DbAddUser ''ab12cd34'' ''p1'',
               Sent 1 (init_message ''ab12cd34'' ''p1''
                        \<lparr>code = JStr '''', language = JStr ''python'', active_users = []\<rparr> 1),
               DbGetSpace ''ab12cd34'', Accepted 2, DbAddUser ''ab12cd34'' ''p2'',
               Sent 2 (init_message ''ab12cd34'' ''p2''
                        \<lparr>code = JStr '''', language = JStr ''python'', active_users = [''p1'']\<rparr> 2),
               Sent 1 (user_join_message ''p2'' 2)]\<rparr>"
  by (simp add: eval_defs)

lemma disconnect_twice:
  "disconnect c s (disconnect c s w) = disconnect c s w"
proof (cases "active_connections (mgr w) s")
  case None
  then show ?thesis
    by (simp add: disconnect_def Let_def remove_user_from_space_def emit_def split: option.splits)
next
  case (Some cs)
  then show ?thesis
    by (simp add: disconnect_def Let_def remove_user_from_space_def emit_def split: option.splits)
qed

lemma get_active_users_members: "get_active_users s w = length (members s w)"
  by (simp add: get_active_users_def members_def split: option.splits)

lemma disconnect_received [simp]: "received p (trace (disconnect c s w)) = received p (trace w)"
  by (simp add: disconnect_trace removal_events_def split: option.splits)

lemma count_list_distinct: "distinct xs \<Longrightarrow> x \<in> set xs \<Longrightarrow> count_list xs x = 1"
  by (induction xs) auto

lemma count_list_notin: "x \<notin> set xs \<Longrightarrow> count_list xs x = 0"
  by (induction xs) auto

lemma demo_two_members: "members ''ab12cd34'' demo_two = [1, 2]"
  by (simp add: demo_two_eq members_def)

section \<open>Leaving twice\<close>

text \<open>
  C6: \<^verbatim>\<open>disconnect\<close> is idempotent. A second call with the same connection and space
  changes nothing at all: the whole state, trace included, is the state after the first
  call, so it makes no second \<^verbatim>\<open>remove_user_from_space\<close> call, sends no frame and has
  no way to raise. A registered connection with a non-empty user id causes exactly one
  \<^verbatim>\<open>remove_user_from_space\<close> call over the two calls. When a connection that was
  already removed (by the cleanup of a peer's broadcast) then leaves through its own
  handler, the handler does not raise and every remaining member whose transport works
  receives exactly one \<^verbatim>\<open>user_leave\<close>, with the count of the members that remain.
\<close>

theorem disconnect_idempotent:
  "disconnect websocket space_id (disconnect websocket space_id w) = disconnect websocket space_id w
   \<and> (user_ids (mgr w) websocket = Some u \<and> u \<noteq> [] \<longrightarrow>
          trace (disconnect websocket space_id (disconnect websocket space_id w)) =
            trace w @ [DbRemoveUser space_id u])
   \<and> fst (on_exception WebSocketDisconnect websocket space_id user_id
             (disconnect websocket space_id w)) = None
   \<and> (distinct (members space_id w) \<and> p \<in> set (members space_id w) \<and> p \<noteq> websocket
            \<and> broken w p = None \<longrightarrow>
          received p (trace (snd (on_exception WebSocketDisconnect websocket space_id user_id
                                    (disconnect websocket space_id w)))) =
            received p (trace w) @
              [user_leave_message user_id (length (removeAll websocket (members space_id w)))])"
proof (intro conjI impI)
  show "disconnect websocket space_id (disconnect websocket space_id w) = disconnect websocket space_id w"
    by (rule disconnect_twice)
next
  assume "user_ids (mgr w) websocket = Some u \<and> u \<noteq> []"
  then show "trace (disconnect websocket space_id (disconnect websocket space_id w)) =
            trace w @ [DbRemoveUser space_id u]"
    by (simp add: disconnect_twice disconnect_trace removal_events_def)
next
  show "fst (on_exception WebSocketDisconnect websocket space_id user_id
             (disconnect websocket space_id w)) = None"
    by (simp add: on_exception_def Let_def)
next
  assume a: "distinct (members space_id w) \<and> p \<in> set (members space_id w) \<and> p \<noteq> websocket
            \<and> broken w p = None"
  let ?w1 = "disconnect websocket space_id w"
  have m: "members space_id ?w1 = removeAll websocket (members space_id w)"
    by (simp add: members_disconnect)
  have "p \<in> set (reachable_members None ?w1 (members space_id ?w1))"
    using a by (simp add: m reachable_members_def)
  moreover have "distinct (reachable_members None ?w1 (members space_id ?w1))"
    using a by (simp add: m reachable_members_def distinct_removeAll)
  ultimately have "count_list (reachable_members None ?w1 (members space_id ?w1)) p = 1"
    by (simp add: count_list_distinct)
  then show "received p (trace (snd (on_exception WebSocketDisconnect websocket space_id user_id ?w1))) =
            received p (trace w) @
              [user_leave_message user_id (length (removeAll websocket (members space_id w)))]"
    by (simp add: on_exception_def Let_def disconnect_twice broadcast_received
          get_active_users_members m)
qed

theorem disconnect_idempotent_witness:
  "disconnect 2 ''ab12cd34'' (disconnect 2 ''ab12cd34'' demo_two) = disconnect 2 ''ab12cd34'' demo_two
   \<and> user_ids (mgr demo_two) 2 = Some ''p2''
   \<and> trace (disconnect 2 ''ab12cd34'' (disconnect 2 ''ab12cd34'' demo_two)) =
        trace demo_two @ [DbRemoveUser ''ab12cd34'' ''p2'']
   \<and> members ''ab12cd34'' demo_two = [1, 2]
   \<and> broken demo_two 1 = None
   \<and> received 1 (trace (snd (on_exception WebSocketDisconnect 2 ''ab12cd34'' ''p2''
                                (disconnect 2 ''ab12cd34'' demo_two)))) =
        received 1 (trace demo_two) @ [user_leave_message ''p2'' 1]"
proof -
  have u: "user_ids (mgr demo_two) 2 = Some ''p2''" and b: "broken demo_two 1 = None"
    by (simp_all add: demo_two_eq)
  show ?thesis
    using disconnect_idempotent [of 2 "''ab12cd34''" demo_two "''p2''" "''p2''" 1] u b
    by (auto simp add: demo_two_members)
qed

section \<open>The loop body, branch by branch\<close>

lemma handle_message_code_change:
  "dict_get kvs ''type'' JNull = JStr ''code_change'' \<Longrightarrow>
   handle_message ws s u now (JObj kvs) w =
     broadcast s (code_change_message (dict_get kvs ''code'' (JStr '''')) u) (Some ws)
       (persist s (dict_get kvs ''code'' (JStr '''')) now w)"
  by (simp add: handle_message_def persist_def last_write_def Let_def)

lemma handle_message_language_change:
  "dict_get kvs ''type'' JNull = JStr ''language_change'' \<Longrightarrow>
   handle_message ws s u now (JObj kvs) w =
     broadcast s (language_change_message (dict_get kvs ''language'' (JStr ''python'')) u) (Some ws)
       (snd (update_space_language s (dict_get kvs ''language'' (JStr ''python'')) w))"
  by (simp add: handle_message_def Let_def)

lemma handle_message_cursor_move:
  "dict_get kvs ''type'' JNull = JStr ''cursor_move'' \<Longrightarrow>
   handle_message ws s u now (JObj kvs) w =
     broadcast s (cursor_move_message u (dict_get kvs ''cursor_position'' (JObj []))) (Some ws) w"
  by (simp add: handle_message_def Let_def)

lemma persist_simps [simp]:
  "broken (persist s c now w) = broken w"
  "members s' (persist s c now w) = members s' w"
  "user_ids (mgr (persist s c now w)) = user_ids (mgr w)"
  "active_connections (mgr (persist s c now w)) = active_connections (mgr w)"
  "received p (trace (persist s c now w)) = received p (trace w)"
  by (simp_all add: persist_def Let_def members_def)

lemma persist_trace:
  "trace (persist s c now w) =
     trace w @ (if now - last_write s w \<ge> 1 / 2 then [DbUpdateCode s c] else [])"
  by (simp add: persist_def Let_def)


lemma disconnect_spaces_code [simp]:
  "map_option code (spaces (disconnect c s w) x) = map_option code (spaces w x)"
  by (simp add: disconnect_def Let_def remove_user_from_space_def split: option.splits)

lemma disconnect_spaces_language [simp]:
  "map_option language (spaces (disconnect c s w) x) = map_option language (spaces w x)"
  by (simp add: disconnect_def Let_def remove_user_from_space_def split: option.splits)

lemma broadcast_cleanup_spaces_code [simp]:
  "map_option code (spaces (broadcast_cleanup dead s w) x) = map_option code (spaces w x)"
  by (induction dead arbitrary: w) simp_all

lemma broadcast_cleanup_spaces_language [simp]:
  "map_option language (spaces (broadcast_cleanup dead s w) x) = map_option language (spaces w x)"
  by (induction dead arbitrary: w) simp_all

lemma broadcast_spaces_code [simp]:
  "map_option code (spaces (snd (broadcast s m ex w)) x) = map_option code (spaces w x)"
  by (simp add: broadcast_unfold split: option.splits)





lemma update_space_code_spaces:
  "map_option code (spaces (snd (update_space_code s c w)) s) =
     (if spaces w s = None then None else Some c)"
  by (simp add: update_space_code_def Let_def emit_def split: option.splits)

lemma persist_spaces:
  "now - last_write s w \<ge> 1 / 2 \<Longrightarrow>
   map_option code (spaces (persist s c now w) s) = (if spaces w s = None then None else Some c)"
  using update_space_code_spaces [of s c w] by (simp add: persist_def Let_def)

lemma broadcast_received_member:
  assumes "distinct (members s w)" "p \<in> set (members s w)" "Some p \<noteq> ex" "broken w p = None"
  shows "received p (trace (snd (broadcast s m ex w))) = received p (trace w) @ [m]"
proof -
  have "p \<in> set (reachable_members ex w (members s w))"
    using assms by (simp add: reachable_members_def)
  moreover have "distinct (reachable_members ex w (members s w))"
    using assms by (simp add: reachable_members_def)
  ultimately have "count_list (reachable_members ex w (members s w)) p = 1"
    by (rule count_list_distinct [rotated])
  then show ?thesis by (simp add: broadcast_received)
qed

lemma broadcast_received_other:
  assumes "Some p = ex \<or> broken w p \<noteq> None \<or> p \<notin> set (members s w)"
  shows "received p (trace (snd (broadcast s m ex w))) = received p (trace w)"
proof -
  have "p \<notin> set (reachable_members ex w (members s w))"
    using assms by (auto simp add: reachable_members_def)
  then have "count_list (reachable_members ex w (members s w)) p = 0"
    by (rule count_list_notin)
  then show ?thesis by (simp add: broadcast_received)
qed

lemma demo_typing_eq:
  "demo_typing =
     \<lparr>mgr = \<lparr>active_connections = [''ab12cd34'' \<mapsto> [1, 2]],
             user_ids = [1 \<mapsto> ''p1'', 2 \<mapsto> ''p2''],
             last_db_write = [''ab12cd34'' \<mapsto> 1000]\<rparr>,
      spaces = [''ab12cd34'' \<mapsto>
                 \<lparr>code = JStr ''x=1'', language = JStr ''python'',
                    active_users = [''p1'', ''p2'']\<rparr>],
      broken = (\<lambda>c. None),
      trace = trace demo_two @
                [DbUpdateCode ''ab12cd34'' (JStr ''x=1''),
                 Sent 2 (code_change_message (JStr ''x=1'') ''p1'')]\<rparr>"
  by (simp add: demo_typing_def demo_two_eq websocket_endpoint_recv_def handle_message_def
     dict_get_def Let_def broadcast_def send_text_def emit_def update_space_code_def
     code_change_message_def)


section \<open>Language changes are not throttled\<close>




section \<open>A code change without a code field\<close>

text \<open>
  C10: when the dictionary of a \<^verbatim>\<open>code_change\<close> message has no \<open>code\<close> key, the server
  takes the empty string. Every other member whose transport works receives
  \<^verbatim>\<open>code_change\<close> with code \<open>""\<close>, and when the throttle lets the write through, the
  write is \<^verbatim>\<open>update_space_code(space_id, "")\<close>: the stored code of an existing space is
  the empty string afterwards.
\<close>

theorem code_change_without_code:
  "dict_get kvs ''type'' JNull = JStr ''code_change'' \<Longrightarrow> map_of kvs ''code'' = None \<Longrightarrow>
   (distinct (members space_id w) \<and> p \<in> set (members space_id w) \<and> p \<noteq> websocket
      \<and> broken w p = None \<longrightarrow>
      received p (trace (snd (handle_message websocket space_id user_id now (JObj kvs) w))) =
        received p (trace w) @ [code_change_message (JStr '''') user_id])
   \<and> (now - last_write space_id w \<ge> 1 / 2 \<longrightarrow>
        code_writes space_id (trace (snd (handle_message websocket space_id user_id now (JObj kvs) w))) =
          code_writes space_id (trace w) @ [JStr '''']
        \<and> map_option code
              (spaces (snd (handle_message websocket space_id user_id now (JObj kvs) w)) space_id) =
            (if spaces w space_id = None then None else Some (JStr '''')))"
proof -
  assume a: "dict_get kvs ''type'' JNull = JStr ''code_change''" and b: "map_of kvs ''code'' = None"
  have c: "dict_get kvs ''code'' (JStr '''') = JStr ''''"
    using b by (simp add: dict_get_def)
  have h: "handle_message websocket space_id user_id now (JObj kvs) w =
        broadcast space_id (code_change_message (JStr '''') user_id) (Some websocket)
          (persist space_id (JStr '''') now w)"
    using handle_message_code_change [OF a, of websocket space_id user_id now w] by (simp only: c)
  show ?thesis
  proof (intro conjI impI)
    assume "distinct (members space_id w) \<and> p \<in> set (members space_id w) \<and> p \<noteq> websocket
      \<and> broken w p = None"
    then show "received p (trace (snd (handle_message websocket space_id user_id now (JObj kvs) w))) =
        received p (trace w) @ [code_change_message (JStr '''') user_id]"
      by (simp add: h broadcast_received_member)
  next
    assume "now - last_write space_id w \<ge> 1 / 2"
    then show "code_writes space_id
          (trace (snd (handle_message websocket space_id user_id now (JObj kvs) w))) =
          code_writes space_id (trace w) @ [JStr '''']"
      by (simp add: h persist_trace)
  next
    assume "now - last_write space_id w \<ge> 1 / 2"
    then show "map_option code
              (spaces (snd (handle_message websocket space_id user_id now (JObj kvs) w)) space_id) =
            (if spaces w space_id = None then None else Some (JStr ''''))"
      by (simp only: h broadcast_spaces_code persist_spaces)
  qed
qed

theorem code_change_without_code_witness:
  "dict_get [(''type'', JStr ''code_change'')] ''type'' JNull = JStr ''code_change''
   \<and> map_of [(''type'', JStr ''code_change'')] ''code'' = None
   \<and> members ''ab12cd34'' demo_typing = [1, 2] \<and> broken demo_typing 2 = None
   \<and> 1001 - last_write ''ab12cd34'' demo_typing \<ge> 1 / 2
   \<and> spaces demo_typing ''ab12cd34'' \<noteq> None
   \<and> received 2 (trace (snd (handle_message 1 ''ab12cd34'' ''p1'' 1001
                     (JObj [(''type'', JStr ''code_change'')]) demo_typing))) =
        received 2 (trace demo_typing) @ [code_change_message (JStr '''') ''p1'']
   \<and> code_writes ''ab12cd34'' (trace (snd (handle_message 1 ''ab12cd34'' ''p1'' 1001
                     (JObj [(''type'', JStr ''code_change'')]) demo_typing))) =
        code_writes ''ab12cd34'' (trace demo_typing) @ [JStr '''']
   \<and> map_option code (spaces (snd (handle_message 1 ''ab12cd34'' ''p1'' 1001
                     (JObj [(''type'', JStr ''code_change'')]) demo_typing)) ''ab12cd34'') =
        Some (JStr '''')"
proof -
  have t: "dict_get [(''type'', JStr ''code_change'')] ''type'' JNull = JStr ''code_change''"
    by (simp add: dict_get_def)
  have c: "map_of [(''type'', JStr ''code_change'')] ''code'' = None"
    by simp
  have m: "members ''ab12cd34'' demo_typing = [1, 2]" and b: "broken demo_typing 2 = None"
    and l: "1001 - last_write ''ab12cd34'' demo_typing \<ge> 1 / 2"
    and s: "spaces demo_typing ''ab12cd34'' \<noteq> None"
    by (simp_all add: demo_typing_eq members_def last_write_def)
  show ?thesis
    using code_change_without_code [OF t c, where space_id = "''ab12cd34''" and w = demo_typing
        and p = 2 and websocket = 1 and now = 1001 and user_id = "''p1''"]
      t c m b l s
    by auto
qed


section \<open>The write throttle\<close>




lemma last_write_broadcast [simp]: "last_write x (snd (broadcast s m ex w)) = last_write x w"
  by (simp add: last_write_def)













section \<open>Joining\<close>

lemma update_space_language_members [simp]:
  "members x (snd (update_space_language s l w)) = members x w"
  by (simp add: members_def)

lemma update_space_language_received [simp]:
  "received p (trace (snd (update_space_language s l w))) = received p (trace w)"
  by simp


lemma broadcast_members_kept:
  "p \<in> set (members s w) \<Longrightarrow> Some p = ex \<or> broken w p = None \<Longrightarrow>
   p \<in> set (members s (snd (broadcast s m ex w)))"
  by (auto simp add: broadcast_members failed_members_def)




lemma connect_simps [simp]:
  "broken (connect ws s u w) = broken w"
  "trace (connect ws s u w) = trace w @ [Accepted ws, DbAddUser s u]"
  "last_db_write (mgr (connect ws s u w)) = last_db_write (mgr w)"
  "user_ids (mgr (connect ws s u w)) = (user_ids (mgr w))(ws \<mapsto> u)"
  by (simp_all add: connect_def Let_def)

lemma connect_members:
  "members x (connect ws s u w) =
     (if x = s then (if ws \<in> set (members s w) then members s w else members s w @ [ws])
      else members x w)"
  by (cases "active_connections (mgr w) s") (simp_all add: connect_def Let_def members_def)

lemma members_emit [simp]: "members x (emit e w) = members x w"
  by (simp add: members_def)

lemma open_missing:
  "spaces w s = None \<Longrightarrow>
   websocket_endpoint_open ws s u w =
     (False, w\<lparr>trace := trace w @ [DbGetSpace s, Closed ws 4004 ''Space not found'']\<rparr>)"
  by (simp add: websocket_endpoint_open_def get_space_def emit_def)

lemma open_existing:
  assumes "spaces w s = Some space" "broken w ws = None"
  shows "websocket_endpoint_open ws s u w =
     (True, snd (broadcast s
        (user_join_message u (length (members s (connect ws s u (emit (DbGetSpace s) w)))))
        (Some ws)
        (emit (Sent ws (init_message s u space
                 (length (members s (connect ws s u (emit (DbGetSpace s) w))))))
           (connect ws s u (emit (DbGetSpace s) w)))))"
proof -
  let ?w2 = "connect ws s u (emit (DbGetSpace s) w)"
  let ?n = "length (members s ?w2)"
  let ?w3 = "emit (Sent ws (init_message s u space ?n)) ?w2"
  have g: "get_space s w = (Some space, emit (DbGetSpace s) w)"
    using assms(1) by (simp add: get_space_def)
  have st: "send_text ws (init_message s u space ?n) ?w2 = (None, ?w3)"
    using assms(2) by (simp add: send_text_simps)
  have n3: "get_active_users s ?w3 = ?n" and n2: "get_active_users s ?w2 = ?n"
    by (simp_all add: get_active_users_members)
  obtain r w4 where b: "broadcast s (user_join_message u ?n) (Some ws) ?w3 = (r, w4)"
    by (cases "broadcast s (user_join_message u ?n) (Some ws) ?w3")
  then have "r = None" using broadcast_fst [of s "user_join_message u ?n" "Some ws" ?w3] by simp
  then show ?thesis
    using b by (simp add: websocket_endpoint_open_def g st n3 n2 Let_def)
qed

lemma open_existing_fresh:
  assumes "spaces w s = Some space" "broken w ws = None" "ws \<notin> set (members s w)"
    "distinct (members s w)"
  defines "n \<equiv> length (members s w) + 1"
  shows "fst (websocket_endpoint_open ws s u w)"
    and "received ws (trace (snd (websocket_endpoint_open ws s u w))) =
           received ws (trace w) @ [init_message s u space n]"
    and "p \<in> set (members s w) \<Longrightarrow> broken w p = None \<Longrightarrow>
         received p (trace (snd (websocket_endpoint_open ws s u w))) =
           received p (trace w) @ [user_join_message u n]"
    and "p \<noteq> ws \<Longrightarrow> p \<notin> set (members s w) \<or> broken w p \<noteq> None \<Longrightarrow>
         received p (trace (snd (websocket_endpoint_open ws s u w))) = received p (trace w)"
    and "ws \<in> set (members s (snd (websocket_endpoint_open ws s u w)))"
proof -
  let ?w2 = "connect ws s u (emit (DbGetSpace s) w)"
  let ?w3 = "emit (Sent ws (init_message s u space n)) ?w2"
  have m2: "members s ?w2 = members s w @ [ws]"
    using assms(3) by (simp add: connect_members)
  then have len: "length (members s ?w2) = n" by (simp add: n_def)
  have o: "websocket_endpoint_open ws s u w =
      (True, snd (broadcast s (user_join_message u n) (Some ws) ?w3))"
    using open_existing [OF assms(1,2), of u] by (simp only: len)
  have m3: "members s ?w3 = members s w @ [ws]" and b3: "broken ?w3 = broken w"
    and d3: "distinct (members s ?w3)"
    using m2 assms(3,4) by simp_all
  show "fst (websocket_endpoint_open ws s u w)" by (simp add: o)
  show "received ws (trace (snd (websocket_endpoint_open ws s u w))) =
           received ws (trace w) @ [init_message s u space n]"
    by (simp add: o broadcast_received_other)
  show "received p (trace (snd (websocket_endpoint_open ws s u w))) =
           received p (trace w) @ [user_join_message u n]"
    if "p \<in> set (members s w)" "broken w p = None"
  proof -
    have "p \<noteq> ws" using that(1) assms(3) by auto
    moreover have "p \<in> set (members s ?w3)" using that(1) m3 by simp
    ultimately have "received p (trace (snd (broadcast s (user_join_message u n) (Some ws) ?w3))) =
        received p (trace ?w3) @ [user_join_message u n]"
      using d3 that(2) b3 by (intro broadcast_received_member) simp_all
    then show ?thesis using \<open>p \<noteq> ws\<close> by (simp add: o)
  qed
  show "received p (trace (snd (websocket_endpoint_open ws s u w))) = received p (trace w)"
    if "p \<noteq> ws" "p \<notin> set (members s w) \<or> broken w p \<noteq> None"
  proof -
    have "Some p = Some ws \<or> broken ?w3 p \<noteq> None \<or> p \<notin> set (members s ?w3)"
      using that m3 b3 by auto
    then have "received p (trace (snd (broadcast s (user_join_message u n) (Some ws) ?w3))) =
        received p (trace ?w3)"
      by (rule broadcast_received_other)
    then show ?thesis using that(1) by (simp add: o)
  qed
  show "ws \<in> set (members s (snd (websocket_endpoint_open ws s u w)))"
    using m3 by (simp add: o broadcast_members_kept)
qed


lemma demo_two_from_one:
  "demo_two = snd (websocket_endpoint_open 2 ''ab12cd34'' ''p2'' demo_one)"
  by (simp add: demo_two_def demo_one_def)

lemma demo_start_facts:
  "spaces demo_start ''ab12cd34'' = Some demo_space"
  "broken demo_start c = None"
  "members ''ab12cd34'' demo_start = []"
  "trace demo_start = []"
  by (simp_all add: demo_start_def demo_spaces_def demo_space_def members_def initial_manager_def)

lemma demo_one_facts:
  "spaces demo_one ''ab12cd34'' = Some (demo_space\<lparr>active_users := [''p1'']\<rparr>)"
  "broken demo_one c = None"
  "members ''ab12cd34'' demo_one = [1]"
  by (simp_all add: demo_one_def demo_space_def eval_defs)


text \<open>
  C9: a connection admitted to an existing space over a working transport enters the
  receive loop as a member and receives exactly one new frame, the \<^verbatim>\<open>init\<close> message with
  the stored code and language and the number of members counted with itself. Any other
  connection receives no \<^verbatim>\<open>init\<close>: a member whose transport works receives exactly one
  \<^verbatim>\<open>user_join\<close> with the same count, and everybody else receives nothing. In the
  scenario of the specification the first joiner sees 1, the second sees 2, and the first
  is told 2.
\<close>

theorem init_and_user_join_on_admission:
  "spaces w space_id = Some space \<Longrightarrow> broken w websocket = None \<Longrightarrow>
   websocket \<notin> set (members space_id w) \<Longrightarrow> distinct (members space_id w) \<Longrightarrow>
   fst (websocket_endpoint_open websocket space_id user_id w)
   \<and> websocket \<in> set (members space_id (snd (websocket_endpoint_open websocket space_id user_id w)))
   \<and> received websocket (trace (snd (websocket_endpoint_open websocket space_id user_id w))) =
       received websocket (trace w) @
         [JObj [(''type'', JStr ''init''), (''space_id'', JStr space_id),
                (''user_id'', JStr user_id), (''code'', code space),
                (''language'', language space),
                (''active_users'', JInt (int (length (members space_id w)) + 1))]]
   \<and> (p \<noteq> websocket \<longrightarrow>
        received p (trace (snd (websocket_endpoint_open websocket space_id user_id w))) =
          received p (trace w) @
            (if p \<in> set (members space_id w) \<and> broken w p = None
             then [JObj [(''type'', JStr ''user_join''), (''user_id'', JStr user_id),
                         (''active_users'', JInt (int (length (members space_id w)) + 1))]]
             else []))"
proof (intro conjI impI)
  assume a: "spaces w space_id = Some space" "broken w websocket = None"
    "websocket \<notin> set (members space_id w)" "distinct (members space_id w)"
  note f = open_existing_fresh [OF a]
  show "fst (websocket_endpoint_open websocket space_id user_id w)" by (rule f(1))
  show "websocket \<in> set (members space_id (snd (websocket_endpoint_open websocket space_id user_id w)))"
    by (rule f(5))
  show "received websocket (trace (snd (websocket_endpoint_open websocket space_id user_id w))) =
       received websocket (trace w) @
         [JObj [(''type'', JStr ''init''), (''space_id'', JStr space_id),
                (''user_id'', JStr user_id), (''code'', code space),
                (''language'', language space),
                (''active_users'', JInt (int (length (members space_id w)) + 1))]]"
    using f(2) [of user_id] by (simp add: init_message_def)
  show "received p (trace (snd (websocket_endpoint_open websocket space_id user_id w))) =
          received p (trace w) @
            (if p \<in> set (members space_id w) \<and> broken w p = None
             then [JObj [(''type'', JStr ''user_join''), (''user_id'', JStr user_id),
                         (''active_users'', JInt (int (length (members space_id w)) + 1))]]
             else [])"
    if "p \<noteq> websocket"
  proof (cases "p \<in> set (members space_id w) \<and> broken w p = None")
    case True
    then show ?thesis using f(3) [of p user_id] by (simp add: user_join_message_def)
  next
    case False
    then show ?thesis using f(4) [of p user_id] that by auto
  qed
qed

theorem init_and_user_join_on_admission_witness:
  "spaces demo_start ''ab12cd34'' = Some demo_space
   \<and> members ''ab12cd34'' demo_start = []
   \<and> received 1 (trace demo_one) =
       [JObj [(''type'', JStr ''init''), (''space_id'', JStr ''ab12cd34''),
              (''user_id'', JStr ''p1''), (''code'', JStr ''''), (''language'', JStr ''python''),
              (''active_users'', JInt 1)]]
   \<and> members ''ab12cd34'' demo_one = [1]
   \<and> fst (websocket_endpoint_open 2 ''ab12cd34'' ''p2'' demo_one)
   \<and> 2 \<in> set (members ''ab12cd34'' demo_two)
   \<and> received 2 (trace demo_two) =
       received 2 (trace demo_one) @
       [JObj [(''type'', JStr ''init''), (''space_id'', JStr ''ab12cd34''),
              (''user_id'', JStr ''p2''), (''code'', JStr ''''), (''language'', JStr ''python''),
              (''active_users'', JInt 2)]]
   \<and> received 1 (trace demo_two) =
       received 1 (trace demo_one) @
       [JObj [(''type'', JStr ''user_join''), (''user_id'', JStr ''p2''),
              (''active_users'', JInt 2)]]"
proof -
  have c: "code demo_space = JStr ''''" "language demo_space = JStr ''python''"
    "code (demo_space\<lparr>active_users := [''p1'']\<rparr>) = JStr ''''"
    "language (demo_space\<lparr>active_users := [''p1'']\<rparr>) = JStr ''python''"
    by (simp_all add: demo_space_def)
  have one: "received 1 (trace demo_one) =
       [JObj [(''type'', JStr ''init''), (''space_id'', JStr ''ab12cd34''),
              (''user_id'', JStr ''p1''), (''code'', JStr ''''), (''language'', JStr ''python''),
              (''active_users'', JInt 1)]]"
    using init_and_user_join_on_admission [of demo_start "''ab12cd34''" demo_space 1 "''p1''" 0]
    by (simp add: demo_start_facts c demo_one_def)
  have two: "fst (websocket_endpoint_open 2 ''ab12cd34'' ''p2'' demo_one)
   \<and> 2 \<in> set (members ''ab12cd34'' demo_two)
   \<and> received 2 (trace demo_two) =
       received 2 (trace demo_one) @
       [JObj [(''type'', JStr ''init''), (''space_id'', JStr ''ab12cd34''),
              (''user_id'', JStr ''p2''), (''code'', JStr ''''), (''language'', JStr ''python''),
              (''active_users'', JInt 2)]]
   \<and> received 1 (trace demo_two) =
       received 1 (trace demo_one) @
       [JObj [(''type'', JStr ''user_join''), (''user_id'', JStr ''p2''),
              (''active_users'', JInt 2)]]"
    using init_and_user_join_on_admission
      [of demo_one "''ab12cd34''" "demo_space\<lparr>active_users := [''p1'']\<rparr>" 2 "''p2''" 1]
    by (simp add: demo_one_facts c demo_two_from_one)
  show ?thesis using one two by (simp add: demo_start_facts demo_one_facts)
qed


section \<open>Fan-out without echo\<close>

lemma demo_two_facts:
  "spaces demo_two ''ab12cd34'' = Some (demo_space\<lparr>active_users := [''p1'', ''p2'']\<rparr>)"
  "broken demo_two c = None"
  "members ''ab12cd34'' demo_two = [1, 2]"
  by (simp_all add: demo_two_eq demo_space_def members_def)

lemma demo_three_members: "members ''ab12cd34'' demo_three = [1, 2, 3]"
  by (simp add: demo_three_def demo_two_eq websocket_endpoint_open_def get_space_def emit_def
        connect_def add_user_to_space_def send_text_def broadcast_def get_active_users_def
        members_def Let_def)

lemma demo_three_broken_facts:
  "members ''ab12cd34'' demo_three_broken = [1, 2, 3]"
  "broken demo_three_broken 2 = None"
  "broken demo_three_broken 3 = Some RuntimeError"
  using demo_three_members by (simp_all add: demo_three_broken_def members_def)





section \<open>A space that does not exist\<close>

text \<open>
  The sentence of C7 that a channel opened against a missing space never causes a call to
  the durable store does not hold as it stands: finding out that the space is missing is
  itself the \<^verbatim>\<open>get_space\<close> call.
\<close>

theorem unknown_space_is_a_store_call:
  "spaces demo_start ''zzzzzzzz'' = None
   \<and> filter is_db_call (trace (snd (websocket_endpoint_open 9 ''zzzzzzzz'' ''p9'' demo_start))) =
       [DbGetSpace ''zzzzzzzz'']"
  by (simp add: demo_start_def demo_spaces_def websocket_endpoint_open_def get_space_def emit_def)


text \<open>
  C7, amended: when the space is not in the store, the endpoint does not enter its receive
  loop; what it does is exactly the \<^verbatim>\<open>get_space\<close> lookup followed by the close with code
  4004 (not 1000) and reason \<open>Space not found\<close>. The connection is never accepted, the
  manager is untouched, so the connection is in no member set, and the store is not
  written: the lookup is the only store call.
\<close>

theorem unknown_space_rejected:
  "spaces w space_id = None \<Longrightarrow>
   \<not> fst (websocket_endpoint_open websocket space_id user_id w)
   \<and> trace (snd (websocket_endpoint_open websocket space_id user_id w)) =
       trace w @ [DbGetSpace space_id, Closed websocket 4004 ''Space not found'']
   \<and> (4004 :: nat) \<noteq> 1000
   \<and> mgr (snd (websocket_endpoint_open websocket space_id user_id w)) = mgr w
   \<and> spaces (snd (websocket_endpoint_open websocket space_id user_id w)) = spaces w"
  by (simp add: open_missing)

theorem unknown_space_rejected_witness:
  "spaces demo_start ''zzzzzzzz'' = None
   \<and> \<not> fst (websocket_endpoint_open 9 ''zzzzzzzz'' ''p9'' demo_start)
   \<and> trace (snd (websocket_endpoint_open 9 ''zzzzzzzz'' ''p9'' demo_start)) =
       [DbGetSpace ''zzzzzzzz'', Closed 9 4004 ''Space not found'']
   \<and> mgr (snd (websocket_endpoint_open 9 ''zzzzzzzz'' ''p9'' demo_start)) = initial_manager
   \<and> spaces (snd (websocket_endpoint_open 9 ''zzzzzzzz'' ''p9'' demo_start)) = demo_spaces"
proof -
  have n: "spaces demo_start ''zzzzzzzz'' = None"
    and t: "trace demo_start = []" and m: "mgr demo_start = initial_manager"
    and s: "spaces demo_start = demo_spaces"
    by (simp_all add: demo_start_def demo_spaces_def)
  show ?thesis
    using unknown_space_rejected [OF n, of 9 "''p9''"] n by (simp add: t m s)
qed


section \<open>A send that fails during a broadcast\<close>

lemma broadcast_sends_fst_distinct:
  "distinct cs \<Longrightarrow> set dead \<inter> set cs = {} \<Longrightarrow>
   fst (broadcast_sends m ex cs dead w) = dead @ failed_members ex w cs"
proof (induction cs arbitrary: dead w)
  case Nil
  then show ?case by (simp add: failed_members_def)
next
  case (Cons c cs)
  have d: "distinct cs" and n: "c \<notin> set cs" and cd: "c \<notin> set dead"
    and i: "set dead \<inter> set cs = {}"
    using Cons.prems by auto
  show ?case
  proof (cases "Some c = ex")
    case True
    then show ?thesis using Cons.IH [OF d i, of w] by (simp add: failed_members_def)
  next
    case False
    show ?thesis
    proof (cases "broken w c")
      case None
      then show ?thesis
        using False Cons.IH [OF d i, of "emit (Sent c m) w"]
        by (simp add: failed_members_def send_text_simps)
    next
      case (Some e)
      have "set (dead @ [c]) \<inter> set cs = {}" using i n by auto
      from Cons.IH [OF d this, of w] show ?thesis
        using False Some cd by (simp add: failed_members_def send_text_simps)
    qed
  qed
qed

lemma broadcast_cleanup_fold:
  "broadcast_cleanup dead s w = fold (\<lambda>d. disconnect d s) dead w"
  by (induction dead arbitrary: w) simp_all

lemma broadcast_cleanup_user_ids:
  "user_ids (mgr (broadcast_cleanup dead s w)) p =
     (if p \<in> set dead then None else user_ids (mgr w) p)"
  by (induction dead arbitrary: w) auto

lemma demo_three_connections:
  "active_connections (mgr demo_three_broken) ''ab12cd34'' = Some [1, 2, 3]"
  using demo_three_broken_facts(1)
  by (simp add: members_def split: option.splits)


text \<open>
  C4: one call of \<^verbatim>\<open>broadcast\<close> on a member set. The call returns without an exception
  whatever the transports do. Every member that is not excluded and whose transport works
  receives the message exactly once, however many other sends fail. The state in which
  the call ends is the state after all the sends, with the member set still as it was,
  to which \<^verbatim>\<open>disconnect\<close> (the function of the graceful leave) has then been applied
  for each connection whose send raised: the removals come after the whole pass. Such a
  connection receives nothing, is no longer a member and has lost its user id.
\<close>

theorem broadcast_isolates_failures:
  "active_connections (mgr w) space_id = Some conns \<Longrightarrow> distinct conns \<Longrightarrow>
   fst (broadcast space_id message exclude w) = None
   \<and> snd (broadcast space_id message exclude w) =
       fold (\<lambda>dead_conn. disconnect dead_conn space_id) (failed_members exclude w conns)
         (w\<lparr>trace := trace w @
               map (\<lambda>c. Sent c message) (reachable_members exclude w conns)\<rparr>)
   \<and> members space_id (snd (broadcast space_id message exclude w)) =
       filter (\<lambda>c. Some c = exclude \<or> broken w c = None) conns
   \<and> (p \<in> set conns \<and> Some p \<noteq> exclude \<and> broken w p = None \<longrightarrow>
        received p (trace (snd (broadcast space_id message exclude w))) =
          received p (trace w) @ [message])
   \<and> (p \<in> set conns \<and> Some p \<noteq> exclude \<and> broken w p \<noteq> None \<longrightarrow>
        received p (trace (snd (broadcast space_id message exclude w))) = received p (trace w)
        \<and> user_ids (mgr (snd (broadcast space_id message exclude w))) p = None)"
proof (intro conjI impI)
  assume a: "active_connections (mgr w) space_id = Some conns" and d: "distinct conns"
  have ms: "members space_id w = conns" using a by (simp add: members_def)
  have dead: "fst (broadcast_sends message exclude conns [] w) = failed_members exclude w conns"
    using broadcast_sends_fst_distinct [OF d, of "[]" message exclude w] by simp
  show "fst (broadcast space_id message exclude w) = None" by simp
  show u: "snd (broadcast space_id message exclude w) =
       fold (\<lambda>dead_conn. disconnect dead_conn space_id) (failed_members exclude w conns)
         (w\<lparr>trace := trace w @
               map (\<lambda>c. Sent c message) (reachable_members exclude w conns)\<rparr>)"
    using a by (simp add: broadcast_unfold dead broadcast_cleanup_fold)
  show "members space_id (snd (broadcast space_id message exclude w)) =
       filter (\<lambda>c. Some c = exclude \<or> broken w c = None) conns"
    by (auto simp add: broadcast_members ms failed_members_def intro: filter_cong)
  show "received p (trace (snd (broadcast space_id message exclude w))) =
          received p (trace w) @ [message]"
    if "p \<in> set conns \<and> Some p \<noteq> exclude \<and> broken w p = None"
    using that d by (intro broadcast_received_member) (simp_all add: ms)
  show "received p (trace (snd (broadcast space_id message exclude w))) = received p (trace w)"
    if "p \<in> set conns \<and> Some p \<noteq> exclude \<and> broken w p \<noteq> None"
    using that by (intro broadcast_received_other) simp
  show "user_ids (mgr (snd (broadcast space_id message exclude w))) p = None"
    if "p \<in> set conns \<and> Some p \<noteq> exclude \<and> broken w p \<noteq> None"
    using that a
    by (simp add: broadcast_unfold dead broadcast_cleanup_user_ids failed_members_def)
qed

theorem broadcast_isolates_failures_witness:
  "active_connections (mgr demo_three_broken) ''ab12cd34'' = Some [1, 2, 3]
   \<and> broken demo_three_broken 3 = Some RuntimeError \<and> broken demo_three_broken 2 = None
   \<and> fst (broadcast ''ab12cd34'' (JStr ''hello'') (Some 1) demo_three_broken) = None
   \<and> snd (broadcast ''ab12cd34'' (JStr ''hello'') (Some 1) demo_three_broken) =
       disconnect 3 ''ab12cd34''
         (demo_three_broken\<lparr>trace := trace demo_three_broken @ [Sent 2 (JStr ''hello'')]\<rparr>)
   \<and> members ''ab12cd34'' (snd (broadcast ''ab12cd34'' (JStr ''hello'') (Some 1) demo_three_broken)) =
       [1, 2]
   \<and> received 2 (trace (snd (broadcast ''ab12cd34'' (JStr ''hello'') (Some 1) demo_three_broken))) =
       received 2 (trace demo_three_broken) @ [JStr ''hello'']
   \<and> received 3 (trace (snd (broadcast ''ab12cd34'' (JStr ''hello'') (Some 1) demo_three_broken))) =
       received 3 (trace demo_three_broken)
   \<and> user_ids (mgr (snd (broadcast ''ab12cd34'' (JStr ''hello'') (Some 1) demo_three_broken))) 3 =
       None"
proof -
  have b: "broken demo_three_broken = (\<lambda>c. if c = 3 then Some RuntimeError else None)"
    by (simp add: demo_three_broken_def)
  have f: "failed_members (Some 1) demo_three_broken [1, 2, 3] = [3]"
    and r: "reachable_members (Some 1) demo_three_broken [1, 2, 3] = [2]"
    by (simp_all add: failed_members_def reachable_members_def b)
  have k: "filter (\<lambda>c. Some c = Some (1::nat) \<or> broken demo_three_broken c = None) [1, 2, 3] = [1, 2]"
    by (simp add: b)
  have d: "distinct [1, 2, 3::nat]" by simp
  note at2 = broadcast_isolates_failures [OF demo_three_connections d, of "JStr ''hello''" "Some 1" 2]
  note at3 = broadcast_isolates_failures [OF demo_three_connections d, of "JStr ''hello''" "Some 1" 3]
  have e1: "fst (broadcast ''ab12cd34'' (JStr ''hello'') (Some 1) demo_three_broken) = None"
    using at3 [THEN conjunct1] .
  have e2: "snd (broadcast ''ab12cd34'' (JStr ''hello'') (Some 1) demo_three_broken) =
       disconnect 3 ''ab12cd34''
         (demo_three_broken\<lparr>trace := trace demo_three_broken @ [Sent 2 (JStr ''hello'')]\<rparr>)"
    using at3 [THEN conjunct2, THEN conjunct1] by (simp only: f r list.map fold_simps id_apply comp_apply)
  have e3: "members ''ab12cd34'' (snd (broadcast ''ab12cd34'' (JStr ''hello'') (Some 1) demo_three_broken)) =
       [1, 2]"
    using at3 [THEN conjunct2, THEN conjunct2, THEN conjunct1] by (simp only: k)
  have e4: "received 2 (trace (snd (broadcast ''ab12cd34'' (JStr ''hello'') (Some 1) demo_three_broken))) =
       received 2 (trace demo_three_broken) @ [JStr ''hello'']"
    using at2 [THEN conjunct2, THEN conjunct2, THEN conjunct2, THEN conjunct1] by (simp add: b)
  have e5: "received 3 (trace (snd (broadcast ''ab12cd34'' (JStr ''hello'') (Some 1) demo_three_broken))) =
       received 3 (trace demo_three_broken)
     \<and> user_ids (mgr (snd (broadcast ''ab12cd34'' (JStr ''hello'') (Some 1) demo_three_broken))) 3 =
       None"
    using at3 [THEN conjunct2, THEN conjunct2, THEN conjunct2, THEN conjunct2] by (simp add: b)
  show ?thesis
    by (intro conjI demo_three_connections e1 e2 e3 e4 e5 [THEN conjunct1] e5 [THEN conjunct2])
      (simp_all add: b)
qed


section \<open>The registry and the empty space\<close>

lemma wf_manager_cong:
  "active_connections (mgr w') = active_connections (mgr w) \<Longrightarrow> wf_manager w' = wf_manager w"
  by (simp add: wf_manager_def)

lemma wf_manager_emit [simp]: "wf_manager (emit e w) = wf_manager w"
  by (rule wf_manager_cong) simp

lemma wf_manager_trace [simp]: "wf_manager (w\<lparr>trace := t\<rparr>) = wf_manager w"
  by (rule wf_manager_cong) simp

lemma wf_manager_outside [simp]: "wf_manager (w\<lparr>spaces := db, broken := br\<rparr>) = wf_manager w"
  by (rule wf_manager_cong) simp

lemma wf_manager_persist [simp]: "wf_manager (persist s c now w) = wf_manager w"
  by (rule wf_manager_cong) simp

lemma wf_manager_update_space_language [simp]:
  "wf_manager (snd (update_space_language s l w)) = wf_manager w"
  by (rule wf_manager_cong) simp

lemma wf_manager_start: "wf_manager \<lparr>mgr = initial_manager, spaces = db, broken = br, trace = []\<rparr>"
  by (simp add: wf_manager_def initial_manager_def)

lemma wf_manager_disconnect: "wf_manager w \<Longrightarrow> wf_manager (disconnect c s w)"
  by (auto simp add: wf_manager_def disconnect_active_connections distinct_removeAll
        split: option.splits if_splits)

lemma wf_manager_connect: "wf_manager w \<Longrightarrow> wf_manager (connect c s u w)"
  by (auto simp add: wf_manager_def connect_def Let_def split: option.splits if_splits)

lemma wf_manager_broadcast_cleanup:
  "wf_manager w \<Longrightarrow> wf_manager (broadcast_cleanup dead s w)"
  by (induction dead arbitrary: w) (simp_all add: wf_manager_disconnect)

lemma wf_manager_broadcast: "wf_manager w \<Longrightarrow> wf_manager (snd (broadcast s m ex w))"
  by (simp add: broadcast_unfold wf_manager_broadcast_cleanup split: option.splits)

lemma wf_manager_handle_message:
  assumes "wf_manager w"
  shows "wf_manager (snd (handle_message c s u now m w))"
proof (cases m)
  case (JObj kvs)
  show ?thesis
  proof (cases "forwarded u kvs")
    case None
    then have "handle_message c s u now (JObj kvs) w = (None, w)"
      by (simp add: forwarded_def handle_message_def Let_def split: if_splits)
    then show ?thesis using assms JObj by simp
  next
    case (Some f)
    then obtain w1 where h: "handle_message c s u now (JObj kvs) w = broadcast s f (Some c) w1"
      and ms: "wf_manager w1"
    proof -
      consider (code) "dict_get kvs ''type'' JNull = JStr ''code_change''"
        | (lang) "dict_get kvs ''type'' JNull = JStr ''language_change''"
        | (cursor) "dict_get kvs ''type'' JNull = JStr ''cursor_move''"
        using Some by (auto simp add: forwarded_def Let_def split: if_splits)
      then show ?thesis
      proof cases
        case code
        then have "f = code_change_message (dict_get kvs ''code'' (JStr '''')) u"
          using Some by (simp add: forwarded_def)
        then show ?thesis
          using handle_message_code_change [OF code, of c s u now w] assms
          by (intro that [of "persist s (dict_get kvs ''code'' (JStr '''')) now w"]) simp_all
      next
        case lang
        then have "f = language_change_message (dict_get kvs ''language'' (JStr ''python'')) u"
          using Some by (simp add: forwarded_def)
        then show ?thesis
          using handle_message_language_change [OF lang, of c s u now w] assms
          by (intro that [of "snd (update_space_language s
                (dict_get kvs ''language'' (JStr ''python'')) w)"]) simp_all
      next
        case cursor
        then have "f = cursor_move_message u (dict_get kvs ''cursor_position'' (JObj []))"
          using Some by (simp add: forwarded_def)
        then show ?thesis
          using handle_message_cursor_move [OF cursor, of c s u now w] assms
          by (intro that [of w]) simp_all
      qed
    qed
    then show ?thesis using JObj by (simp add: wf_manager_broadcast)
  qed
qed (simp_all add: handle_message_def assms)

lemma wf_manager_on_exception:
  "wf_manager w \<Longrightarrow> wf_manager (snd (on_exception e c s u w))"
  by (cases e) (simp_all add: on_exception_def Let_def wf_manager_broadcast wf_manager_disconnect)

lemma wf_manager_recv:
  assumes "wf_manager w"
  shows "wf_manager (snd (websocket_endpoint_recv c s u now inp w))"
proof -
  obtain r w1 where i: "(case inp of
              Receive_Raises e \<Rightarrow> (Some e, w)
            | Undecodable_Text \<Rightarrow> (Some JSONDecodeError, w)
            | Json_Text message \<Rightarrow> handle_message c s u now message w) = (r, w1)"
    by (cases "(case inp of
              Receive_Raises e \<Rightarrow> (Some e, w)
            | Undecodable_Text \<Rightarrow> (Some JSONDecodeError, w)
            | Json_Text message \<Rightarrow> handle_message c s u now message w)")
  have "wf_manager w1"
  proof (cases inp)
    case (Json_Text m)
    then have "w1 = snd (handle_message c s u now m w)" using i by simp
    then show ?thesis using assms by (simp add: wf_manager_handle_message)
  qed (use i assms in auto)
  then show ?thesis
    using i by (cases r) (simp_all add: websocket_endpoint_recv_def wf_manager_on_exception)
qed

lemma wf_manager_open:
  assumes "wf_manager w"
  shows "wf_manager (snd (websocket_endpoint_open c s u w))"
proof (cases "spaces w s")
  case None
  then show ?thesis using assms by (simp add: open_missing)
next
  case (Some space)
  let ?w2 = "connect c s u (emit (DbGetSpace s) w)"
  have w2: "wf_manager ?w2" using assms by (simp add: wf_manager_connect)
  show ?thesis
  proof (cases "broken w c")
    case None
    then show ?thesis using open_existing [OF Some None, of u] w2
      by (simp add: wf_manager_broadcast)
  next
    case (Some e)
    then have "send_text c (init_message s u space (get_active_users s ?w2)) ?w2 = (Some e, ?w2)"
      by (simp add: send_text_simps)
    then have "websocket_endpoint_open c s u w = (False, snd (on_exception e c s u ?w2))"
      using \<open>spaces w s = Some space\<close>
      by (simp add: websocket_endpoint_open_def get_space_def Let_def)
    then show ?thesis using w2 by (simp add: wf_manager_on_exception)
  qed
qed

lemma reachable_wf_manager: "reachable w \<Longrightarrow> wf_manager w"
proof (induction rule: reachable.induct)
  case (start db br)
  show ?case by (rule wf_manager_start)
next
  case (outside w db br)
  then show ?case by simp
next
  case (opened w c s u)
  then show ?case by (simp add: wf_manager_open)
next
  case (turn w c s u now inp)
  then show ?case by (simp add: wf_manager_recv)
qed


lemma members_empty_iff:
  "wf_manager w \<Longrightarrow> (active_connections (mgr w) s \<noteq> None) = (members s w \<noteq> [])"
  by (auto simp add: wf_manager_def members_def split: option.splits)

lemma wf_manager_distinct: "wf_manager w \<Longrightarrow> distinct (members s w)"
  by (auto simp add: wf_manager_def members_def split: option.splits)

lemma demo_reachable: "reachable demo_start" "reachable demo_one" "reachable demo_two"
proof -
  show s: "reachable demo_start"
    unfolding demo_start_def by (rule reachable.start)
  then show o: "reachable demo_one"
    unfolding demo_one_def by (rule reachable.opened)
  then show "reachable demo_two"
    unfolding demo_two_from_one by (rule reachable.opened)
qed


text \<open>
  The last sentence of C5, that the registry keeps no memory of a space without
  connections, does not hold: after the only member has left, the space has no entry in
  \<^verbatim>\<open>active_connections\<close>, but the time of its last write is still in
  \<^verbatim>\<open>last_db_write\<close>.
\<close>

theorem empty_space_keeps_its_timestamp:
  "members ''ab12cd34'' demo_left = []
   \<and> active_connections (mgr demo_left) ''ab12cd34'' = None
   \<and> last_db_write (mgr demo_left) ''ab12cd34'' = Some 1000"
  by (simp add: demo_left_def websocket_endpoint_def demo_keystroke_def eval_defs)


text \<open>
  C5, amended: in every state the server can reach, a space has an entry in
  \<^verbatim>\<open>active_connections\<close> exactly when it has at least one member, and its members are
  a set. The entry is there after a join, it is removed by the leave of the last member
  and kept, without the leaver, by any other leave. The time recorded in
  \<^verbatim>\<open>last_db_write\<close> is not touched by a leave: it stays after the last one.
\<close>

theorem registry_entry_iff_members:
  "reachable w \<Longrightarrow>
   (active_connections (mgr w) space_id \<noteq> None) = (members space_id w \<noteq> [])
   \<and> distinct (members space_id w)
   \<and> websocket \<in> set (members space_id (connect websocket space_id user_id w))
   \<and> (set (members space_id w) \<subseteq> {websocket} \<longrightarrow>
        active_connections (mgr (disconnect websocket space_id w)) space_id = None)
   \<and> (\<not> set (members space_id w) \<subseteq> {websocket} \<longrightarrow>
        active_connections (mgr (disconnect websocket space_id w)) space_id =
          Some (removeAll websocket (members space_id w)))
   \<and> last_db_write (mgr (disconnect websocket space_id w)) = last_db_write (mgr w)"
proof (intro conjI impI)
  assume r: "reachable w"
  then have wf: "wf_manager w" by (rule reachable_wf_manager)
  show "(active_connections (mgr w) space_id \<noteq> None) = (members space_id w \<noteq> [])"
    using wf by (rule members_empty_iff)
  show "distinct (members space_id w)" using wf by (rule wf_manager_distinct)
  show "websocket \<in> set (members space_id (connect websocket space_id user_id w))"
    by (simp add: connect_members)
  show "active_connections (mgr (disconnect websocket space_id w)) space_id = None"
    if "set (members space_id w) \<subseteq> {websocket}"
  proof (cases "active_connections (mgr w) space_id")
    case None
    then show ?thesis by (simp add: disconnect_active_connections)
  next
    case (Some cs)
    then have "set cs \<subseteq> {websocket}" using that by (simp add: members_def)
    then have "removeAll websocket cs = []"
      by (auto simp add: removeAll_filter_not_eq filter_empty_conv)
    then show ?thesis using Some by (simp add: disconnect_active_connections)
  qed
  show "active_connections (mgr (disconnect websocket space_id w)) space_id =
          Some (removeAll websocket (members space_id w))"
    if "\<not> set (members space_id w) \<subseteq> {websocket}"
  proof (cases "active_connections (mgr w) space_id")
    case None
    then show ?thesis using that by (simp add: members_def)
  next
    case (Some cs)
    then have "\<not> set cs \<subseteq> {websocket}" and m: "members space_id w = cs"
      using that by (simp_all add: members_def)
    then have "removeAll websocket cs \<noteq> []"
      by (auto simp add: removeAll_filter_not_eq filter_empty_conv)
    then show ?thesis using Some m by (simp add: disconnect_active_connections)
  qed
  show "last_db_write (mgr (disconnect websocket space_id w)) = last_db_write (mgr w)"
    by simp
qed

theorem registry_entry_iff_members_witness:
  "reachable demo_one \<and> reachable demo_two
   \<and> members ''ab12cd34'' demo_one = [1]
   \<and> active_connections (mgr demo_one) ''ab12cd34'' \<noteq> None
   \<and> active_connections (mgr (disconnect 1 ''ab12cd34'' demo_one)) ''ab12cd34'' = None
   \<and> last_db_write (mgr (disconnect 1 ''ab12cd34'' demo_one)) = last_db_write (mgr demo_one)
   \<and> members ''ab12cd34'' demo_two = [1, 2]
   \<and> 3 \<in> set (members ''ab12cd34'' (connect 3 ''ab12cd34'' ''p3'' demo_two))
   \<and> active_connections (mgr (disconnect 1 ''ab12cd34'' demo_two)) ''ab12cd34'' = Some [2]"
proof -
  note one = registry_entry_iff_members [OF demo_reachable(2), of "''ab12cd34''" 1 "''p1''"]
  note two = registry_entry_iff_members [OF demo_reachable(3), of "''ab12cd34''" 1 "''p1''"]
  note three = registry_entry_iff_members [OF demo_reachable(3), of "''ab12cd34''" 3 "''p3''"]
  have a: "active_connections (mgr demo_one) ''ab12cd34'' \<noteq> None"
    using one [THEN conjunct1] by (simp add: demo_one_facts)
  have b: "active_connections (mgr (disconnect 1 ''ab12cd34'' demo_one)) ''ab12cd34'' = None"
    using one [THEN conjunct2, THEN conjunct2, THEN conjunct2, THEN conjunct1]
    by (simp add: demo_one_facts)
  have c: "last_db_write (mgr (disconnect 1 ''ab12cd34'' demo_one)) = last_db_write (mgr demo_one)"
    using one [THEN conjunct2, THEN conjunct2, THEN conjunct2, THEN conjunct2, THEN conjunct2] .
  have d: "3 \<in> set (members ''ab12cd34'' (connect 3 ''ab12cd34'' ''p3'' demo_two))"
    using three [THEN conjunct2, THEN conjunct2, THEN conjunct1] .
  have e: "active_connections (mgr (disconnect 1 ''ab12cd34'' demo_two)) ''ab12cd34'' = Some [2]"
    using two [THEN conjunct2, THEN conjunct2, THEN conjunct2, THEN conjunct2, THEN conjunct1]
    by (simp add: demo_two_facts)
  show ?thesis
    by (intro conjI demo_reachable a b c d e demo_one_facts(3) demo_two_facts(3))
qed


section \<open>Leaving after an error\<close>

lemma recv_undecodable:
  "websocket_endpoint_recv c s u now Undecodable_Text w = (False, disconnect c s w)"
  by (simp add: websocket_endpoint_recv_def on_exception_def)

lemma recv_undecodable_received:
  "received p (trace (snd (websocket_endpoint_recv c s u now Undecodable_Text w))) =
     received p (trace w)"
  by (simp add: recv_undecodable)


text \<open>
  C3 on the code: \<open>P2\<close> is a member next to \<open>P1\<close> and sends a text that
  \<^verbatim>\<open>json.loads\<close> rejects. The exception is not a \<^verbatim>\<open>WebSocketDisconnect\<close>, so the
  handler of \<open>P2\<close> ends in the clause \<^verbatim>\<open>except Exception\<close>: \<open>P2\<close> is removed from the
  member set, but \<open>P1\<close> receives nothing. Had the transport reported a disconnect, the
  other clause would have sent \<open>P1\<close> the \<^verbatim>\<open>user_leave\<close> with the count 1.
\<close>

theorem undecodable_text_sends_no_user_leave:
  "members ''ab12cd34'' demo_two = [1, 2]
   \<and> \<not> fst (websocket_endpoint_recv 2 ''ab12cd34'' ''p2'' 1000 Undecodable_Text demo_two)
   \<and> members ''ab12cd34''
        (snd (websocket_endpoint_recv 2 ''ab12cd34'' ''p2'' 1000 Undecodable_Text demo_two)) = [1]
   \<and> received 1
        (trace (snd (websocket_endpoint_recv 2 ''ab12cd34'' ''p2'' 1000 Undecodable_Text demo_two))) =
      received 1 (trace demo_two)
   \<and> received 1
        (trace (snd (websocket_endpoint_recv 2 ''ab12cd34'' ''p2'' 1000
                       (Receive_Raises WebSocketDisconnect) demo_two))) =
      received 1 (trace demo_two) @ [user_leave_message ''p2'' 1]"
proof -
  have d: "members ''ab12cd34'' (disconnect 2 ''ab12cd34'' demo_two) = [1]"
    by (simp add: members_disconnect demo_two_facts)
  have "received 1 (trace (snd (broadcast ''ab12cd34'' (user_leave_message ''p2'' 1) None
                                  (disconnect 2 ''ab12cd34'' demo_two)))) =
        received 1 (trace (disconnect 2 ''ab12cd34'' demo_two)) @ [user_leave_message ''p2'' 1]"
    by (rule broadcast_received_member) (simp_all add: d demo_two_facts)
  then show ?thesis
    by (simp add: recv_undecodable websocket_endpoint_recv_def on_exception_def Let_def
          get_active_users_members d demo_two_facts)
qed


end
